theory Spec2Isabelle
  imports Complex_Main
begin

section \<open>Errors\<close>

text \<open>
  A Go \<^verbatim>\<open>error\<close> value is \<^verbatim>\<open>nil\<close> or an error; \<^verbatim>\<open>nil\<close> is \<open>None\<close> of
  \<open>error option\<close>. The error values the repository builds are
  \<^item> \<^verbatim>\<open>errors.New(msg)\<close>: a plain error, with no \<^verbatim>\<open>Unwrap\<close>;
  \<^item> \<^verbatim>\<open>&retry.RetryableError{Err: err}\<close> (pkg/retry/backoff.go), whose \<^verbatim>\<open>Err\<close> may be nil;
  \<^item> an error that wraps one other error and hands it out through \<^verbatim>\<open>Unwrap\<close>
    (\<^verbatim>\<open>domain.DomainError\<close>, \<^verbatim>\<open>fmt.Errorf\<close> with \<^verbatim>\<open>%w\<close>), of a type other than
    \<^verbatim>\<open>*RetryableError\<close>.
\<close>

datatype error =
    New string
  | RetryableError "error option"
  | Wrapped string error

text \<open>
  \<^verbatim>\<open>IsRetryable\<close> is \<^verbatim>\<open>errors.As(err, &retryable)\<close> with a target of type
  \<^verbatim>\<open>*RetryableError\<close>: it walks the \<^verbatim>\<open>Unwrap\<close> chain from \<^verbatim>\<open>err\<close> and stops at the
  first error of that type.
\<close>

fun IsRetryable :: "error \<Rightarrow> bool" where
  "IsRetryable (New msg) = False"
| "IsRetryable (RetryableError inner) = True"
| "IsRetryable (Wrapped msg inner) = IsRetryable inner"

definition NewRetryableError :: "error \<Rightarrow> error" where
  "NewRetryableError err = RetryableError (Some err)"

definition context_Canceled :: error where
  "context_Canceled = New ''context canceled''"

section \<open>pkg/retry: Do and DoWithResult\<close>

text \<open>
  \<^verbatim>\<open>time.Duration\<close> is a count of nanoseconds. \<^verbatim>\<open>MaxRetries\<close> is a Go \<^verbatim>\<open>int\<close>; it and the
  loop counter \<^verbatim>\<open>attempt\<close> are integers here, negative values included (the counter
  would need \<open>2 ^ 63\<close> invocations of the work function to wrap). The two \<^verbatim>\<open>float64\<close>
  fields hold the real number the float stands for; only \<^verbatim>\<open>calculateBackoff\<close> reads them.
\<close>

type_synonym duration = int

record Config =
  MaxRetries :: int
  InitialBackoff :: duration
  MaxBackoff :: duration
  Multiplier :: real
  Jitter :: real

definition DefaultConfig :: Config where
  "DefaultConfig =
     \<lparr>MaxRetries = 3, InitialBackoff = 100 * 1000000, MaxBackoff = 10 * 1000000000,
      Multiplier = 2, Jitter = 1 / 10\<rparr>"






text \<open>
  The work function \<^verbatim>\<open>fn\<close> is a Go closure: what it returns may depend on state it
  captured and changes (the tests count calls in \<^verbatim>\<open>callCount\<close>). It is a function from that
  state to its result and the new state. Every invocation of \<^verbatim>\<open>fn\<close> in the model adds one
  to a count of calls that is returned with the result.

  Before attempt \<open>i > 0\<close> the code waits in
  \<^verbatim>\<open>select { case <-ctx.Done(): return ctx.Err(); case <-time.After(backoff): }\<close>.
  Which case fires is decided by the context and the clock, outside the function; the model
  takes it from \<open>ctx\<close>: \<open>ctx i = Some e\<close> when \<^verbatim>\<open>ctx.Done()\<close> fires during the wait before
  attempt \<open>i\<close> (and \<^verbatim>\<open>ctx.Err()\<close> is \<open>e\<close>), \<open>ctx i = None\<close> when the timer fires first.
  The duration \<^verbatim>\<open>calculateBackoff(cfg, attempt)\<close> only sets the length of that wait, so
  the loop below does not read it.
\<close>

type_synonym 's work = "'s \<Rightarrow> error option \<times> 's"
type_synonym ('a, 's) work_result = "'s \<Rightarrow> ('a \<times> error option) \<times> 's"
type_synonym ctx = "int \<Rightarrow> error option"

function Do_loop ::
  "Config \<Rightarrow> ctx \<Rightarrow> 's work \<Rightarrow> int \<Rightarrow> error option \<Rightarrow> 's \<Rightarrow> nat \<Rightarrow> error option \<times> 's \<times> nat"
where
  "Do_loop cfg ctx fn attempt lastErr s calls =
     (if attempt \<le> MaxRetries cfg then
        (case (if attempt > 0 then ctx attempt else None) of
           Some cerr \<Rightarrow> (Some cerr, s, calls)
         | None \<Rightarrow>
             (case fn s of
                (None, s') \<Rightarrow> (None, s', Suc calls)
              | (Some err, s') \<Rightarrow>
                  if \<not> IsRetryable err then (Some err, s', Suc calls)
                  else Do_loop cfg ctx fn (attempt + 1) (Some err) s' (Suc calls)))
      else (lastErr, s, calls))"
  by pat_completeness auto
termination
  by (relation "measure (\<lambda>(cfg, ctx, fn, attempt, lastErr, s, calls). nat (MaxRetries cfg + 1 - attempt))")
    auto

declare Do_loop.simps [simp del]

definition Do :: "Config \<Rightarrow> ctx \<Rightarrow> 's work \<Rightarrow> 's \<Rightarrow> error option \<times> 's \<times> nat" where
  "Do cfg ctx fn s = Do_loop cfg ctx fn 0 None s 0"

text \<open>
  \<^verbatim>\<open>DoWithResult\<close> keeps in \<^verbatim>\<open>result\<close> what the last invocation returned, also when it
  failed; before the first invocation \<^verbatim>\<open>result\<close> is the zero value of \<^verbatim>\<open>T\<close>, the
  parameter \<open>zero\<close> of the model.
\<close>

function DoWithResult_loop ::
  "Config \<Rightarrow> ctx \<Rightarrow> ('a, 's) work_result \<Rightarrow> int \<Rightarrow> 'a \<Rightarrow> error option \<Rightarrow> 's \<Rightarrow> nat
     \<Rightarrow> ('a \<times> error option) \<times> 's \<times> nat"
where
  "DoWithResult_loop cfg ctx fn attempt result lastErr s calls =
     (if attempt \<le> MaxRetries cfg then
        (case (if attempt > 0 then ctx attempt else None) of
           Some cerr \<Rightarrow> ((result, Some cerr), s, calls)
         | None \<Rightarrow>
             (case fn s of
                ((result', None), s') \<Rightarrow> ((result', None), s', Suc calls)
              | ((result', Some err), s') \<Rightarrow>
                  if \<not> IsRetryable err then ((result', Some err), s', Suc calls)
                  else DoWithResult_loop cfg ctx fn (attempt + 1) result' (Some err) s' (Suc calls)))
      else ((result, lastErr), s, calls))"
  by pat_completeness auto
termination
  by (relation "measure (\<lambda>(cfg, ctx, fn, attempt, result, lastErr, s, calls).
        nat (MaxRetries cfg + 1 - attempt))")
    auto

declare DoWithResult_loop.simps [simp del]

definition DoWithResult ::
  "Config \<Rightarrow> ctx \<Rightarrow> ('a, 's) work_result \<Rightarrow> 'a \<Rightarrow> 's \<Rightarrow> ('a \<times> error option) \<times> 's \<times> nat"
where
  "DoWithResult cfg ctx fn zero s = DoWithResult_loop cfg ctx fn 0 zero None s 0"

text \<open>
  The state of the closure after \<open>k\<close> invocations in a row, and what invocation number
  \<open>k\<close> (counted from 0) returns, when the closure starts in state \<open>s\<close>.
\<close>

definition state_after :: "('s \<Rightarrow> 'r \<times> 's) \<Rightarrow> 's \<Rightarrow> nat \<Rightarrow> 's" where
  "state_after fn s k = ((\<lambda>t. snd (fn t)) ^^ k) s"

definition invocation :: "('s \<Rightarrow> 'r \<times> 's) \<Rightarrow> 's \<Rightarrow> nat \<Rightarrow> 'r" where
  "invocation fn s k = fst (fn (state_after fn s k))"

section \<open>internal/services: MetricsService\<close>

text \<open>
  An instant (\<^verbatim>\<open>time.Time\<close>) is a count of nanoseconds. The counters are \<^verbatim>\<open>int64\<close>;
  a counter goes up by one per poll cycle, so the wrap at \<open>2 ^ 63\<close> is out of reach and
  the counters are integers here. The mutex makes every call of a \<^verbatim>\<open>Record\<close> method one
  step: a history of the service is a sequence of calls. \<^verbatim>\<open>time.Now()\<close> inside a call is
  the argument \<open>now\<close>.
\<close>

type_synonym time = int

record MetricsService =
  startTime :: time
  lastPollTime :: "time option"
  lastPollDuration :: duration
  pollSuccessCount :: int
  pollErrorCount :: int
  totalPollTime :: duration

definition NewMetricsService :: "time \<Rightarrow> MetricsService" where
  "NewMetricsService now =
     \<lparr>startTime = now, lastPollTime = None, lastPollDuration = 0,
      pollSuccessCount = 0, pollErrorCount = 0, totalPollTime = 0\<rparr>"

definition RecordPollSuccess :: "time \<Rightarrow> duration \<Rightarrow> MetricsService \<Rightarrow> MetricsService" where
  "RecordPollSuccess now d m =
     m\<lparr>lastPollTime := Some now, lastPollDuration := d,
       pollSuccessCount := pollSuccessCount m + 1, totalPollTime := totalPollTime m + d\<rparr>"

definition RecordPollError :: "time \<Rightarrow> duration \<Rightarrow> MetricsService \<Rightarrow> MetricsService" where
  "RecordPollError now d m =
     m\<lparr>lastPollTime := Some now, lastPollDuration := d,
       pollErrorCount := pollErrorCount m + 1, totalPollTime := totalPollTime m + d\<rparr>"

text \<open>A call of one of the two mutators, with the instant it reads and its argument.\<close>

datatype record_call = PollSuccess time duration | PollError time duration

fun call_time :: "record_call \<Rightarrow> time" where
  "call_time (PollSuccess now d) = now"
| "call_time (PollError now d) = now"

fun call_duration :: "record_call \<Rightarrow> duration" where
  "call_duration (PollSuccess now d) = d"
| "call_duration (PollError now d) = d"

fun is_success :: "record_call \<Rightarrow> bool" where
  "is_success (PollSuccess now d) = True"
| "is_success (PollError now d) = False"

fun record_one :: "MetricsService \<Rightarrow> record_call \<Rightarrow> MetricsService" where
  "record_one m (PollSuccess now d) = RecordPollSuccess now d m"
| "record_one m (PollError now d) = RecordPollError now d m"

definition record_calls :: "MetricsService \<Rightarrow> record_call list \<Rightarrow> MetricsService" where
  "record_calls m cs = foldl record_one m cs"

section \<open>internal/domain\<close>

text \<open>
  \<^verbatim>\<open>decimal.Decimal\<close> (shopspring) is a coefficient and a power of ten. The slices of
  pointers that the collaborators return (\<^verbatim>\<open>[]*domain.Symbol\<close>, \<^verbatim>\<open>[]*domain.Price\<close>) are
  lists of the records pointed to.
\<close>

datatype decimal = Decimal int int

record domain_Symbol =
  ID :: int
  Name :: string
  Active :: bool
  CreatedAt :: time
  UpdatedAt :: time

record domain_Price =
  Price_Symbol :: string
  Price_Price :: decimal

record domain_PriceSnapshot =
  Snapshot_ID :: int
  SymbolID :: int
  Symbol :: string
  Price :: decimal
  Timestamp :: time

definition ErrInvalidSymbol :: error where
  "ErrInvalidSymbol = New ''invalid symbol format''"

definition ErrSymbolNotFound :: error where
  "ErrSymbolNotFound = New ''symbol not found''"

definition ErrInternal :: error where
  "ErrInternal = New ''internal server error''"

section \<open>internal/services: PollerService.PollPrices\<close>

text \<open>
  The collaborators of one cycle: what \<^verbatim>\<open>symbolRepo.ListActive\<close> returns, what
  \<^verbatim>\<open>exchange.GetPrices\<close> returns for the names it is asked, and what
  \<^verbatim>\<open>snapshotRepo.CreateBatch\<close> returns for the batch it is given (\<open>Inl\<close> is the error
  return). Each is called at most once in a cycle. \<open>clock i\<close> is reading number \<open>i\<close> of
  \<^verbatim>\<open>time.Now()\<close> during the cycle: \<^verbatim>\<open>start\<close> is reading 0, \<^verbatim>\<open>time.Since(start)\<close> takes
  a reading and subtracts \<^verbatim>\<open>start\<close>, and the \<^verbatim>\<open>Record\<close> method takes one more.
  Logging is left out.
\<close>

record PollerService =
  ListActive :: "error + domain_Symbol list"
  GetPrices :: "string list \<Rightarrow> error + domain_Price list"
  CreateBatch :: "domain_PriceSnapshot list \<Rightarrow> error option"

text \<open>
  What a cycle did: the error \<^verbatim>\<open>PollPrices\<close> returned, the metrics after it, the names
  passed to \<^verbatim>\<open>GetPrices\<close> (when called), the slice \<^verbatim>\<open>snapshots\<close> built (empty when the
  cycle ended before), and the batch passed to \<^verbatim>\<open>CreateBatch\<close> (when called).
\<close>

record PollOutcome =
  returned :: "error option"
  metrics :: MetricsService
  fetched :: "string list option"
  snapshots :: "domain_PriceSnapshot list"
  created :: "domain_PriceSnapshot list option"

definition symbolMap_of :: "domain_Symbol list \<Rightarrow> (string \<rightharpoonup> domain_Symbol)" where
  "symbolMap_of symbols = foldl (\<lambda>symbolMap s. symbolMap(Name s \<mapsto> s)) Map.empty symbols"

definition createSnapshots ::
  "(string \<rightharpoonup> domain_Symbol) \<Rightarrow> domain_Price list \<Rightarrow> time \<Rightarrow> domain_PriceSnapshot list"
where
  "createSnapshots symbolMap prices now =
     foldl (\<lambda>snaps price.
         (case symbolMap (Price_Symbol price) of
            Some symb \<Rightarrow>
              snaps @ [\<lparr>Snapshot_ID = 0, SymbolID = ID symb, Symbol = Price_Symbol price,
                         Price = Price_Price price, Timestamp = now\<rparr>]
          | None \<Rightarrow> snaps))
       [] prices"

text \<open>
  The snapshot that the loop of \<open>createSnapshots\<close> appends for a quote whose symbol is a
  key of the map.
\<close>

definition snapshot_of ::
  "(string \<rightharpoonup> domain_Symbol) \<Rightarrow> time \<Rightarrow> domain_Price \<Rightarrow> domain_PriceSnapshot"
where
  "snapshot_of symbolMap now q =
     \<lparr>Snapshot_ID = 0, SymbolID = ID (the (symbolMap (Price_Symbol q))),
      Symbol = Price_Symbol q, Price = Price_Price q, Timestamp = now\<rparr>"

definition PollPrices :: "PollerService \<Rightarrow> (nat \<Rightarrow> time) \<Rightarrow> MetricsService \<Rightarrow> PollOutcome" where
  "PollPrices p clock m =
     (let start = clock 0 in
      case ListActive p of
        Inl err \<Rightarrow>
          \<lparr>returned = Some err, metrics = RecordPollError (clock 2) (clock 1 - start) m,
           fetched = None, snapshots = [], created = None\<rparr>
      | Inr symbols \<Rightarrow>
          if length symbols = 0 then
            \<lparr>returned = None, metrics = m, fetched = None, snapshots = [], created = None\<rparr>
          else
            (let symbolNames = map Name symbols;
                 symbolMap = symbolMap_of symbols
             in case GetPrices p symbolNames of
                  Inl err \<Rightarrow>
                    \<lparr>returned = Some err, metrics = RecordPollError (clock 2) (clock 1 - start) m,
                     fetched = Some symbolNames, snapshots = [], created = None\<rparr>
                | Inr prices \<Rightarrow>
                    (let now = clock 1;
                         snaps = createSnapshots symbolMap prices now
                     in if length snaps = 0 then
                          \<lparr>returned = None,
                           metrics = RecordPollSuccess (clock 3) (clock 2 - start) m,
                           fetched = Some symbolNames, snapshots = snaps, created = None\<rparr>
                        else
                          (case CreateBatch p snaps of
                             Some err \<Rightarrow>
                               \<lparr>returned = Some err,
                                metrics = RecordPollError (clock 3) (clock 2 - start) m,
                                fetched = Some symbolNames, snapshots = snaps,
                                created = Some snaps\<rparr>
                           | None \<Rightarrow>
                               \<lparr>returned = None,
                                metrics = RecordPollSuccess (clock 3) (clock 2 - start) m,
                                fetched = Some symbolNames, snapshots = snaps,
                                created = Some snaps\<rparr>))))"

section \<open>internal/domain: ValidateSymbolName\<close>

text \<open>
  A Go string is a sequence of bytes, as \<open>string\<close> is here: \<^verbatim>\<open>len(name)\<close> counts bytes.
  \<^verbatim>\<open>for _, r := range name\<close> decodes the bytes as UTF-8, one rune (code point) per step: a
  byte below \<^verbatim>\<open>0x80\<close> is its own rune, and otherwise the Go runtime's \<^verbatim>\<open>decoderune\<close> reads a
  sequence of two to four bytes, or gives \<^verbatim>\<open>U+FFFD\<close> and moves one byte on when the bytes
  are not the encoding of a rune. \<open>decoderune\<close> returns the rune and how many bytes it took.
\<close>

unbundle bit_operations_syntax

definition runeError :: nat where
  "runeError = 0xFFFD"

definition cont :: "char \<Rightarrow> bool" where
  "cont b = (0x80 \<le> (of_char b :: nat) \<and> (of_char b :: nat) \<le> 0xBF)"

fun decoderune :: "string \<Rightarrow> nat \<times> nat" where
  "decoderune [] = (runeError, 1)"
| "decoderune (b0 # rest) =
     (let c0 = (of_char b0 :: nat) in
      if 0xC0 \<le> c0 \<and> c0 < 0xE0 then
        (case rest of
           b1 # _ \<Rightarrow>
             if cont b1 then
               (let r = push_bit 6 (c0 AND 0x1F) OR (of_char b1 AND 0x3F)
                in if 0x7F < r then (r, 2) else (runeError, 1))
             else (runeError, 1)
         | _ \<Rightarrow> (runeError, 1))
      else if 0xE0 \<le> c0 \<and> c0 < 0xF0 then
        (case rest of
           b1 # b2 # _ \<Rightarrow>
             if cont b1 \<and> cont b2 then
               (let r = push_bit 12 (c0 AND 0x0F) OR push_bit 6 (of_char b1 AND 0x3F)
                          OR (of_char b2 AND 0x3F)
                in if 0x7FF < r \<and> \<not> (0xD800 \<le> r \<and> r \<le> 0xDFFF) then (r, 3)
                   else (runeError, 1))
             else (runeError, 1)
         | _ \<Rightarrow> (runeError, 1))
      else if 0xF0 \<le> c0 \<and> c0 < 0xF8 then
        (case rest of
           b1 # b2 # b3 # _ \<Rightarrow>
             if cont b1 \<and> cont b2 \<and> cont b3 then
               (let r = push_bit 18 (c0 AND 0x07) OR push_bit 12 (of_char b1 AND 0x3F)
                          OR push_bit 6 (of_char b2 AND 0x3F) OR (of_char b3 AND 0x3F)
                in if 0xFFFF < r \<and> r \<le> 0x10FFFF then (r, 4) else (runeError, 1))
             else (runeError, 1)
         | _ \<Rightarrow> (runeError, 1))
      else (runeError, 1))"

function runes :: "string \<Rightarrow> nat list" where
  "runes [] = []"
| "runes (b # rest) =
     (if (of_char b :: nat) < 0x80 then of_char b # runes rest
      else (case decoderune (b # rest) of (r, width) \<Rightarrow> r # runes (drop (width - 1) rest)))"
  by pat_completeness auto
termination
  by (relation "measure length") auto

text \<open>
  \<^verbatim>\<open>unicode.IsUpper\<close> and \<^verbatim>\<open>unicode.IsDigit\<close> are the standard library's. For a rune up to
  \<^verbatim>\<open>U+00FF\<close> both answer from fixed data: the uppercase letters of Latin-1 are \<^verbatim>\<open>A\<close> to
  \<^verbatim>\<open>Z\<close>, \<^verbatim>\<open>U+00C0\<close> to \<^verbatim>\<open>U+00D6\<close> and \<^verbatim>\<open>U+00D8\<close> to \<^verbatim>\<open>U+00DE\<close>, and its digits are \<^verbatim>\<open>0\<close>
  to \<^verbatim>\<open>9\<close>. Above \<^verbatim>\<open>U+00FF\<close> they look the rune up in the range tables \<^verbatim>\<open>unicode.Upper\<close>
  and \<^verbatim>\<open>unicode.Digit\<close>, which are parameters here.
\<close>

definition unicode_IsUpper :: "(nat \<Rightarrow> bool) \<Rightarrow> nat \<Rightarrow> bool" where
  "unicode_IsUpper Upper r =
     (if r \<le> 0xFF then
        (0x41 \<le> r \<and> r \<le> 0x5A) \<or> (0xC0 \<le> r \<and> r \<le> 0xD6) \<or> (0xD8 \<le> r \<and> r \<le> 0xDE)
      else Upper r)"

definition unicode_IsDigit :: "(nat \<Rightarrow> bool) \<Rightarrow> nat \<Rightarrow> bool" where
  "unicode_IsDigit Digit r = (if r \<le> 0xFF then 0x30 \<le> r \<and> r \<le> 0x39 else Digit r)"

fun check_runes :: "(nat \<Rightarrow> bool) \<Rightarrow> (nat \<Rightarrow> bool) \<Rightarrow> nat list \<Rightarrow> error option" where
  "check_runes Upper Digit [] = None"
| "check_runes Upper Digit (r # rs) =
     (if \<not> unicode_IsUpper Upper r \<and> \<not> unicode_IsDigit Digit r then Some ErrInvalidSymbol
      else check_runes Upper Digit rs)"

definition ValidateSymbolName :: "(nat \<Rightarrow> bool) \<Rightarrow> (nat \<Rightarrow> bool) \<Rightarrow> string \<Rightarrow> error option" where
  "ValidateSymbolName Upper Digit name =
     (if name = [] then Some ErrInvalidSymbol
      else if length name < 2 \<or> length name > 20 then Some ErrInvalidSymbol
      else check_runes Upper Digit (runes name))"

section \<open>internal/services: SnapshotService.GetPriceHistory\<close>

text \<open>
  The two repositories are the functions \<open>Exists\<close> and \<open>GetHistory\<close> (\<open>Inl\<close> is the
  error return); \<^verbatim>\<open>strings.ToUpper\<close> and \<^verbatim>\<open>strings.TrimSpace\<close> are the standard library's
  and are parameters. The model returns, with the result, the repository calls made, in
  order. \<^verbatim>\<open>limit\<close> is a Go \<^verbatim>\<open>int\<close>, only compared and assigned.
\<close>

record SnapshotService =
  Exists :: "string \<Rightarrow> error + bool"
  GetHistory :: "string \<Rightarrow> int \<Rightarrow> error + domain_PriceSnapshot list"

datatype repo_call = Exists_call string | GetHistory_call string int

definition GetPriceHistory ::
  "SnapshotService \<Rightarrow> (string \<Rightarrow> string) \<Rightarrow> (string \<Rightarrow> string) \<Rightarrow> string \<Rightarrow> int
     \<Rightarrow> (error + domain_PriceSnapshot list) \<times> repo_call list"
where
  "GetPriceHistory svc ToUpper TrimSpace symbol0 limit0 =
     (let symbol = ToUpper (TrimSpace symbol0);
          limit1 = (if limit0 \<le> 0 then 100 else limit0);
          limit = (if limit1 > 1000 then 1000 else limit1)
      in case Exists svc symbol of
           Inl err \<Rightarrow> (Inl ErrInternal, [Exists_call symbol])
         | Inr exists \<Rightarrow>
             if \<not> exists then (Inl ErrSymbolNotFound, [Exists_call symbol])
             else
               (case GetHistory svc symbol limit of
                  Inl err \<Rightarrow> (Inl ErrInternal, [Exists_call symbol, GetHistory_call symbol limit])
                | Inr history \<Rightarrow>
                    (Inr history, [Exists_call symbol, GetHistory_call symbol limit])))"

section \<open>internal/worker: Poller.Start\<close>

text \<open>
  \<^verbatim>\<open>Poller.Start\<close> takes the lock, returns nil when \<^verbatim>\<open>running\<close> is set, and otherwise sets
  it, makes the two channels anew, creates the ticker (\<^verbatim>\<open>time.NewTicker\<close> panics when the
  interval is not positive), polls once and enters \<^verbatim>\<open>for { select { ... } }\<close>. Which case a
  \<^verbatim>\<open>select\<close> takes is decided outside the function (the context, a call of \<^verbatim>\<open>Stop\<close> on
  another goroutine, the ticker): the model reads the cases taken from a list, one per
  pass through the \<^verbatim>\<open>select\<close>. When the list ends the function is waiting in the
  \<^verbatim>\<open>select\<close> and has not returned: that is \<open>Blocked\<close>. A channel is open or closed; the
  stop case is taken only once \<^verbatim>\<open>Stop\<close> has closed \<^verbatim>\<open>stopCh\<close>, so \<^verbatim>\<open>stopCh\<close> is closed after
  it.
  \<^verbatim>\<open>service.PollPrices\<close> is a function on the state of the service, given the timeout of
  the cycle; \<open>poll\<close> only logs the error it returns. \<open>poll\<close> runs only with a positive
  interval, where Go's \<^verbatim>\<open>interval / 2\<close> is \<open>div\<close>.
\<close>

datatype select_case = Ctx_Done | StopCh | Ticker_C

datatype progress = Returned "error option" | Blocked | Panicked

record Poller =
  interval :: duration
  running :: bool
  stopCh_closed :: bool
  doneCh_closed :: bool

definition pollTimeout :: "duration \<Rightarrow> duration" where
  "pollTimeout iv = (if iv div 2 < 5 * 1000000000 then 5 * 1000000000 else iv div 2)"

definition poll :: "(duration \<Rightarrow> 's \<Rightarrow> error option \<times> 's) \<Rightarrow> Poller \<Rightarrow> 's \<Rightarrow> 's" where
  "poll service p s = snd (service (pollTimeout (interval p)) s)"

fun Start_loop ::
  "(duration \<Rightarrow> 's \<Rightarrow> error option \<times> 's) \<Rightarrow> error \<Rightarrow> select_case list \<Rightarrow> Poller \<Rightarrow> 's
     \<Rightarrow> progress \<times> Poller \<times> 's"
where
  "Start_loop service ctxErr [] p s = (Blocked, p, s)"
| "Start_loop service ctxErr (Ctx_Done # cases) p s =
     (Returned (Some ctxErr), p\<lparr>doneCh_closed := True, running := False\<rparr>, s)"
| "Start_loop service ctxErr (StopCh # cases) p s =
     (Returned None, p\<lparr>stopCh_closed := True, doneCh_closed := True, running := False\<rparr>, s)"
| "Start_loop service ctxErr (Ticker_C # cases) p s =
     Start_loop service ctxErr cases p (poll service p s)"

definition Start ::
  "(duration \<Rightarrow> 's \<Rightarrow> error option \<times> 's) \<Rightarrow> error \<Rightarrow> select_case list \<Rightarrow> Poller \<Rightarrow> 's
     \<Rightarrow> progress \<times> Poller \<times> 's"
where
  "Start service ctxErr cases p s =
     (if running p then (Returned None, p, s)
      else
        (let p1 = p\<lparr>running := True, stopCh_closed := False, doneCh_closed := False\<rparr>
         in if interval p1 \<le> 0 then (Panicked, p1, s)
            else Start_loop service ctxErr cases p1 (poll service p1 s)))"

section \<open>cmd/server: Application.Start\<close>



text \<open>A service whose state is the number of cycles it has run; every cycle succeeds.\<close>

definition counting_service :: "duration \<Rightarrow> nat \<Rightarrow> error option \<times> nat" where
  "counting_service timeout cycles = (None, Suc cycles)"

section \<open>Properties of the retry loop\<close>

text \<open>
  Invocations of the closure one after the other: the state after \<open>Suc k\<close> of them, and
  what invocation \<open>Suc k\<close> returns, seen from the state after the first.
\<close>

lemma state_after_0: "state_after fn s 0 = s"
  by (simp add: state_after_def)

lemma state_after_Suc: "state_after fn s (Suc k) = state_after fn (snd (fn s)) k"
  by (simp add: state_after_def funpow_Suc_right del: funpow.simps)

lemma invocation_0: "invocation fn s 0 = fst (fn s)"
  by (simp add: invocation_def state_after_0)

lemma invocation_Suc: "invocation fn s (Suc k) = invocation fn (snd (fn s)) k"
  by (simp add: invocation_def state_after_Suc)

text \<open>
  A closure that counts its calls, as the tests' closures do with \<^verbatim>\<open>callCount\<close>.
\<close>

lemma state_after_counter: "state_after (\<lambda>c::nat. (r c, Suc c)) s k = s + k"
  by (induction k arbitrary: s) (simp_all add: state_after_0 state_after_Suc)

lemma invocation_counter: "invocation (\<lambda>c::nat. (r c, Suc c)) s k = r (s + k)"
  by (simp add: invocation_def state_after_counter)

text \<open>
  \<open>k\<close> passes through the loop, each ending in a retryable error and none cut short by
  the context, take the loop from attempt \<open>a\<close> to attempt \<open>a + k\<close>.
\<close>

lemma Do_loop_retry:
  assumes "\<forall>j<k. \<exists>e. invocation fn s j = Some e \<and> IsRetryable e"
    and "\<forall>j<k. 0 < a + int j \<longrightarrow> ctx (a + int j) = None"
    and "a + int k \<le> MaxRetries cfg + 1"
  shows "Do_loop cfg ctx fn a lastErr s calls =
         Do_loop cfg ctx fn (a + int k) (if k = 0 then lastErr else invocation fn s (k - 1))
           (state_after fn s k) (calls + k)"
  using assms
proof (induction k arbitrary: a lastErr s calls)
  case 0
  then show ?case by (simp add: state_after_0)
next
  case (Suc k)
  from Suc.prems(1) obtain e where e: "invocation fn s 0 = Some e" "IsRetryable e"
    by blast
  then obtain s' where fs: "fn s = (Some e, s')"
    by (cases "fn s") (simp add: invocation_0)
  have a: "a \<le> MaxRetries cfg" using Suc.prems(3) by simp
  have c: "0 < a \<longrightarrow> ctx a = None" using Suc.prems(2) by force
  have step: "Do_loop cfg ctx fn a lastErr s calls = Do_loop cfg ctx fn (a + 1) (Some e) s' (Suc calls)"
    using a c e fs by (subst Do_loop.simps) auto
  have p1: "\<forall>j<k. \<exists>e. invocation fn s' j = Some e \<and> IsRetryable e"
    using Suc.prems(1) fs by (auto simp: invocation_Suc)
  have p2: "\<forall>j<k. 0 < (a + 1) + int j \<longrightarrow> ctx ((a + 1) + int j) = None"
  proof (intro allI impI)
    fix j assume "j < k" "0 < a + 1 + int j"
    then show "ctx (a + 1 + int j) = None"
      using Suc.prems(2) [rule_format, of "Suc j"] by (simp add: add.assoc)
  qed
  have p3: "(a + 1) + int k \<le> MaxRetries cfg + 1" using Suc.prems(3) by simp
  have last: "(if k = 0 then Some e else invocation fn s' (k - 1)) = invocation fn s (Suc k - 1)"
    using e fs by (cases k) (simp_all add: invocation_Suc)
  show ?case
    unfolding step Suc.IH [OF p1 p2 p3, of "Some e" "Suc calls"] last
    using fs by (simp add: state_after_Suc add.assoc)
qed

lemma DoWithResult_loop_retry:
  assumes "\<forall>j<k. \<exists>r e. invocation fn s j = (r, Some e) \<and> IsRetryable e"
    and "\<forall>j<k. 0 < a + int j \<longrightarrow> ctx (a + int j) = None"
    and "a + int k \<le> MaxRetries cfg + 1"
  shows "DoWithResult_loop cfg ctx fn a result lastErr s calls =
         DoWithResult_loop cfg ctx fn (a + int k)
           (if k = 0 then result else fst (invocation fn s (k - 1)))
           (if k = 0 then lastErr else snd (invocation fn s (k - 1)))
           (state_after fn s k) (calls + k)"
  using assms
proof (induction k arbitrary: a result lastErr s calls)
  case 0
  then show ?case by (simp add: state_after_0)
next
  case (Suc k)
  from Suc.prems(1) obtain r e where e: "invocation fn s 0 = (r, Some e)" "IsRetryable e"
    by blast
  then obtain s' where fs: "fn s = ((r, Some e), s')"
    by (cases "fn s") (simp add: invocation_0)
  have a: "a \<le> MaxRetries cfg" using Suc.prems(3) by simp
  have c: "0 < a \<longrightarrow> ctx a = None" using Suc.prems(2) by force
  have step: "DoWithResult_loop cfg ctx fn a result lastErr s calls =
      DoWithResult_loop cfg ctx fn (a + 1) r (Some e) s' (Suc calls)"
    using a c e fs by (subst DoWithResult_loop.simps) auto
  have p1: "\<forall>j<k. \<exists>r e. invocation fn s' j = (r, Some e) \<and> IsRetryable e"
    using Suc.prems(1) fs by (auto simp: invocation_Suc)
  have p2: "\<forall>j<k. 0 < (a + 1) + int j \<longrightarrow> ctx ((a + 1) + int j) = None"
  proof (intro allI impI)
    fix j assume "j < k" "0 < a + 1 + int j"
    then show "ctx (a + 1 + int j) = None"
      using Suc.prems(2) [rule_format, of "Suc j"] by (simp add: add.assoc)
  qed
  have p3: "(a + 1) + int k \<le> MaxRetries cfg + 1" using Suc.prems(3) by simp
  have last1: "(if k = 0 then r else fst (invocation fn s' (k - 1))) = fst (invocation fn s (Suc k - 1))"
    using e fs by (cases k) (simp_all add: invocation_Suc)
  have last2: "(if k = 0 then Some e else snd (invocation fn s' (k - 1))) = snd (invocation fn s (Suc k - 1))"
    using e fs by (cases k) (simp_all add: invocation_Suc)
  show ?case
    unfolding step Suc.IH [OF p1 p2 p3, of r "Some e" "Suc calls"] last1 last2
    using fs by (simp add: state_after_Suc add.assoc)
qed

lemma Do_loop_exit:
  "MaxRetries cfg < a \<Longrightarrow> Do_loop cfg ctx fn a lastErr s calls = (lastErr, s, calls)"
  by (subst Do_loop.simps) simp

lemma DoWithResult_loop_exit:
  "MaxRetries cfg < a \<Longrightarrow>
   DoWithResult_loop cfg ctx fn a result lastErr s calls = ((result, lastErr), s, calls)"
  by (subst DoWithResult_loop.simps) simp

text \<open>
  C1. With \<^verbatim>\<open>MaxRetries = N\<close>, \<open>N \<ge> 0\<close>, a work function that returns a retryable error
  on every invocation, and a context that is not cancelled during the waits, \<^verbatim>\<open>Do\<close> and
  \<^verbatim>\<open>DoWithResult\<close> invoke the work function exactly \<open>N + 1\<close> times and return what the
  last invocation (number \<open>N\<close>, counted from 0) returned: its retryable error itself, and
  for \<^verbatim>\<open>DoWithResult\<close> its result value with it.
\<close>

theorem retry_bound:
  assumes N: "0 \<le> MaxRetries cfg"
    and fails: "\<forall>j. \<exists>e. invocation fn s j = Some e \<and> IsRetryable e"
    and failsr: "\<forall>j. \<exists>r e. invocation fnr t j = (r, Some e) \<and> IsRetryable e"
    and live: "\<forall>i. 0 < i \<and> i \<le> MaxRetries cfg \<longrightarrow> ctx i = None"
  shows "Do cfg ctx fn s =
           (invocation fn s (nat (MaxRetries cfg)),
            state_after fn s (nat (MaxRetries cfg) + 1), nat (MaxRetries cfg) + 1)
       \<and> DoWithResult cfg ctx fnr zero t =
           (invocation fnr t (nat (MaxRetries cfg)),
            state_after fnr t (nat (MaxRetries cfg) + 1), nat (MaxRetries cfg) + 1)
       \<and> (\<exists>e. invocation fn s (nat (MaxRetries cfg)) = Some e \<and> IsRetryable e)
       \<and> (\<exists>r e. invocation fnr t (nat (MaxRetries cfg)) = (r, Some e) \<and> IsRetryable e)"
proof -
  from N obtain n where n: "MaxRetries cfg = int n"
    using nonneg_int_cases by blast
  have le: "0 + int (Suc n) \<le> MaxRetries cfg + 1" and gt: "MaxRetries cfg < 0 + int (Suc n)"
    using n by simp_all
  have f: "\<forall>j<Suc n. \<exists>e. invocation fn s j = Some e \<and> IsRetryable e"
    using fails by simp
  have fr: "\<forall>j<Suc n. \<exists>r e. invocation fnr t j = (r, Some e) \<and> IsRetryable e"
    using failsr by simp
  have c: "\<forall>j<Suc n. 0 < 0 + int j \<longrightarrow> ctx (0 + int j) = None"
    using live n by simp
  have d: "Do cfg ctx fn s = (invocation fn s n, state_after fn s (Suc n), Suc n)"
    unfolding Do_def Do_loop_retry [OF f c le, of None 0] Do_loop_exit [OF gt]
    by simp
  have r: "DoWithResult cfg ctx fnr zero t = (invocation fnr t n, state_after fnr t (Suc n), Suc n)"
    unfolding DoWithResult_def DoWithResult_loop_retry [OF fr c le, of zero None 0]
      DoWithResult_loop_exit [OF gt]
    by simp
  show ?thesis using d r fails failsr n by simp
qed

text \<open>
  The run of \<^verbatim>\<open>TestDo_ExhaustsRetries\<close>: \<^verbatim>\<open>MaxRetries = 2\<close>, three calls.
\<close>

theorem retry_bound_witness:
  "Do \<lparr>MaxRetries = 2, InitialBackoff = 10000000, MaxBackoff = 100000000, Multiplier = 2, Jitter = 0\<rparr>
      (\<lambda>i. None)
      (\<lambda>callCount::nat. (Some (NewRetryableError (New ''always fails'')), Suc callCount)) 0
     = (Some (NewRetryableError (New ''always fails'')), 3, 3)
   \<and> DoWithResult \<lparr>MaxRetries = 2, InitialBackoff = 10000000, MaxBackoff = 100000000, Multiplier = 2, Jitter = 0\<rparr>
      (\<lambda>i. None)
      (\<lambda>callCount::nat. ((callCount, Some (NewRetryableError (New ''temporary''))), Suc callCount))
      0 0
     = ((2, Some (NewRetryableError (New ''temporary''))), 3, 3)"
  using retry_bound [of
      "\<lparr>MaxRetries = 2, InitialBackoff = 10000000, MaxBackoff = 100000000, Multiplier = 2, Jitter = 0\<rparr>"
      "\<lambda>callCount::nat. (Some (NewRetryableError (New ''always fails'')), Suc callCount)" 0
      "\<lambda>callCount::nat. ((callCount, Some (NewRetryableError (New ''temporary''))), Suc callCount)" 0
      "\<lambda>i. None" 0]
  by (simp add: invocation_counter state_after_counter NewRetryableError_def)

text \<open>
  C2. When invocation number \<open>k\<close> of the work function (reached after \<open>k\<close> retryable
  failures, within \<^verbatim>\<open>MaxRetries\<close>, the context not cancelled during the waits before)
  returns an error that is not retryable, \<^verbatim>\<open>Do\<close> returns that very error and has invoked
  the work function \<open>k + 1\<close> times, no more. For \<open>k = 0\<close>: a terminal error on the first
  call means exactly one invocation, whatever \<^verbatim>\<open>MaxRetries \<ge> 0\<close> is.
\<close>

theorem terminal_short_circuit:
  assumes k: "int k \<le> MaxRetries cfg"
    and before: "\<forall>j<k. \<exists>e. invocation fn s j = Some e \<and> IsRetryable e"
    and live: "\<forall>j. 0 < j \<and> j \<le> k \<longrightarrow> ctx (int j) = None"
    and terminal: "invocation fn s k = Some err" "\<not> IsRetryable err"
  shows "Do cfg ctx fn s = (Some err, state_after fn s (Suc k), Suc k)"
proof -
  have c: "\<forall>j<k. 0 < 0 + int j \<longrightarrow> ctx (0 + int j) = None"
    using live by simp
  have "Do cfg ctx fn s = Do_loop cfg ctx fn (0 + int k)
          (if k = 0 then None else invocation fn s (k - 1)) (state_after fn s k) (0 + k)"
    unfolding Do_def
    using Do_loop_retry [of k fn s 0 ctx cfg None 0] before c k by simp
  moreover obtain s' where fs: "fn (state_after fn s k) = (Some err, s')"
    using terminal(1) by (cases "fn (state_after fn s k)") (simp add: invocation_def)
  moreover have "0 < int k \<longrightarrow> ctx (int k) = None"
    using live by simp
  moreover have "state_after fn s (Suc k) = s'"
    using fs by (simp add: state_after_def)
  ultimately show ?thesis
    using k terminal(2) by (subst (asm) Do_loop.simps) auto
qed

text \<open>
  The run of \<^verbatim>\<open>TestDo_NoRetryOnNonRetryableError\<close>, and a run with a terminal error
  on the third call.
\<close>

theorem terminal_short_circuit_witness:
  "Do DefaultConfig (\<lambda>i. None) (\<lambda>callCount::nat. (Some (New ''permanent error''), Suc callCount)) 0
     = (Some (New ''permanent error''), 1, 1)
   \<and> Do DefaultConfig (\<lambda>i. None)
       (\<lambda>callCount::nat.
          (if callCount < 2 then Some (NewRetryableError (New ''temporary error''))
           else Some (Wrapped ''fetch failed'' (New ''permanent error'')), Suc callCount)) 0
     = (Some (Wrapped ''fetch failed'' (New ''permanent error'')), 3, 3)"
  using terminal_short_circuit [of 0 DefaultConfig
      "\<lambda>callCount::nat. (Some (New ''permanent error''), Suc callCount)" 0 "\<lambda>i. None"
      "New ''permanent error''"]
    terminal_short_circuit [of 2 DefaultConfig
      "\<lambda>callCount::nat.
          (if callCount < 2 then Some (NewRetryableError (New ''temporary error''))
           else Some (Wrapped ''fetch failed'' (New ''permanent error'')), Suc callCount)" 0 "\<lambda>i. None"
      "Wrapped ''fetch failed'' (New ''permanent error'')"]
  by (simp add: invocation_counter state_after_counter NewRetryableError_def DefaultConfig_def)

text \<open>
  C4. When the context is cancelled during the wait before attempt \<open>i \<ge> 1\<close> (reached
  after \<open>i\<close> retryable failures), \<^verbatim>\<open>Do\<close> and \<^verbatim>\<open>DoWithResult\<close> return the context's error
  and the work function has been invoked exactly \<open>i\<close> times: it is not invoked again.
  \<^verbatim>\<open>DoWithResult\<close> returns with it the result value of the last invocation made.
\<close>

theorem cancellation_precedence:
  assumes i: "0 < i" "int i \<le> MaxRetries cfg"
    and before: "\<forall>j<i. \<exists>e. invocation fn s j = Some e \<and> IsRetryable e"
    and beforer: "\<forall>j<i. \<exists>r e. invocation fnr t j = (r, Some e) \<and> IsRetryable e"
    and live: "\<forall>j. 0 < j \<and> j < i \<longrightarrow> ctx (int j) = None"
    and cancelled: "ctx (int i) = Some cerr"
  shows "Do cfg ctx fn s = (Some cerr, state_after fn s i, i)
       \<and> DoWithResult cfg ctx fnr zero t =
           ((fst (invocation fnr t (i - 1)), Some cerr), state_after fnr t i, i)"
proof -
  have c: "\<forall>j<i. 0 < 0 + int j \<longrightarrow> ctx (0 + int j) = None"
    using live by simp
  have le: "0 + int i \<le> MaxRetries cfg + 1" using i by simp
  have "Do cfg ctx fn s = Do_loop cfg ctx fn (0 + int i)
          (if i = 0 then None else invocation fn s (i - 1)) (state_after fn s i) (0 + i)"
    unfolding Do_def
    using Do_loop_retry [OF before c le, of None 0] by simp
  then have d: "Do cfg ctx fn s = (Some cerr, state_after fn s i, i)"
    using i cancelled by (subst (asm) Do_loop.simps) simp
  have "DoWithResult cfg ctx fnr zero t = DoWithResult_loop cfg ctx fnr (0 + int i)
          (if i = 0 then zero else fst (invocation fnr t (i - 1)))
          (if i = 0 then None else snd (invocation fnr t (i - 1))) (state_after fnr t i) (0 + i)"
    unfolding DoWithResult_def
    using DoWithResult_loop_retry [OF beforer c le, of zero None 0] by simp
  then have r: "DoWithResult cfg ctx fnr zero t =
      ((fst (invocation fnr t (i - 1)), Some cerr), state_after fnr t i, i)"
    using i cancelled by (subst (asm) DoWithResult_loop.simps) simp
  show ?thesis using d r by simp
qed

text \<open>
  A context cancelled during the second wait: two calls, then \<^verbatim>\<open>context.Canceled\<close>.
\<close>

theorem cancellation_precedence_witness:
  "Do \<lparr>MaxRetries = 10, InitialBackoff = 100000000, MaxBackoff = 1000000000, Multiplier = 2, Jitter = 0\<rparr>
      (\<lambda>i. if i = 2 then Some context_Canceled else None)
      (\<lambda>callCount::nat. (Some (NewRetryableError (New ''temporary'')), Suc callCount)) 0
     = (Some context_Canceled, 2, 2)
   \<and> DoWithResult \<lparr>MaxRetries = 10, InitialBackoff = 100000000, MaxBackoff = 1000000000, Multiplier = 2, Jitter = 0\<rparr>
      (\<lambda>i. if i = 2 then Some context_Canceled else None)
      (\<lambda>callCount::nat. ((callCount, Some (NewRetryableError (New ''temporary''))), Suc callCount))
      0 0
     = ((1, Some context_Canceled), 2, 2)"
  using cancellation_precedence [of 2
      "\<lparr>MaxRetries = 10, InitialBackoff = 100000000, MaxBackoff = 1000000000, Multiplier = 2, Jitter = 0\<rparr>"
      "\<lambda>callCount::nat. (Some (NewRetryableError (New ''temporary'')), Suc callCount)" 0
      "\<lambda>callCount::nat. ((callCount, Some (NewRetryableError (New ''temporary''))), Suc callCount)" 0
      "\<lambda>i. if i = 2 then Some context_Canceled else None" context_Canceled 0]
  by (simp add: invocation_counter state_after_counter NewRetryableError_def)

section \<open>Properties of calculateBackoff\<close>






section \<open>Properties of the metrics\<close>

lemma record_calls_Nil: "record_calls m [] = m"
  by (simp add: record_calls_def)

lemma record_calls_snoc: "record_calls m (cs @ [c]) = record_one (record_calls m cs) c"
  by (simp add: record_calls_def)

lemma record_calls_append: "record_calls m (cs @ ds) = record_calls (record_calls m cs) ds"
  by (simp add: record_calls_def)

lemma record_one_success:
  "pollSuccessCount (record_one m c) = pollSuccessCount m + (if is_success c then 1 else 0)"
  by (cases c) (simp_all add: RecordPollSuccess_def RecordPollError_def)

lemma record_one_error:
  "pollErrorCount (record_one m c) = pollErrorCount m + (if is_success c then 0 else 1)"
  by (cases c) (simp_all add: RecordPollSuccess_def RecordPollError_def)

lemma record_one_last:
  "lastPollTime (record_one m c) = Some (call_time c) \<and> lastPollDuration (record_one m c) = call_duration c"
  by (cases c) (simp_all add: RecordPollSuccess_def RecordPollError_def)

lemma success_count:
  "pollSuccessCount (record_calls m cs) = pollSuccessCount m + int (length (filter is_success cs))"
  by (induction cs rule: rev_induct) (simp_all add: record_calls_Nil record_calls_snoc record_one_success)

lemma error_count:
  "pollErrorCount (record_calls m cs) =
   pollErrorCount m + int (length (filter (\<lambda>c. \<not> is_success c) cs))"
  by (induction cs rule: rev_induct) (simp_all add: record_calls_Nil record_calls_snoc record_one_error)

text \<open>
  C5. Each of \<^verbatim>\<open>RecordPollSuccess\<close> and \<^verbatim>\<open>RecordPollError\<close> sets the last-poll time to
  the instant of the call and the last-poll duration to its argument, adds one to its own
  counter and leaves the other counter as it was. So after any sequence of calls on a new
  service the two counters add up to the number of calls; from any state they add up to
  their sum before plus the number of calls; neither counter is ever lower after more
  calls; and the last-poll fields are those of the last call.
\<close>

theorem metrics_counters:
  "lastPollTime (RecordPollSuccess now d m) = Some now
   \<and> lastPollDuration (RecordPollSuccess now d m) = d
   \<and> pollSuccessCount (RecordPollSuccess now d m) = pollSuccessCount m + 1
   \<and> pollErrorCount (RecordPollSuccess now d m) = pollErrorCount m
   \<and> lastPollTime (RecordPollError now d m) = Some now
   \<and> lastPollDuration (RecordPollError now d m) = d
   \<and> pollErrorCount (RecordPollError now d m) = pollErrorCount m + 1
   \<and> pollSuccessCount (RecordPollError now d m) = pollSuccessCount m
   \<and> pollSuccessCount (record_calls (NewMetricsService t0) cs)
       + pollErrorCount (record_calls (NewMetricsService t0) cs) = int (length cs)
   \<and> pollSuccessCount (record_calls m cs) + pollErrorCount (record_calls m cs)
       = pollSuccessCount m + pollErrorCount m + int (length cs)
   \<and> pollSuccessCount (record_calls m cs) \<le> pollSuccessCount (record_calls m (cs @ ds))
   \<and> pollErrorCount (record_calls m cs) \<le> pollErrorCount (record_calls m (cs @ ds))
   \<and> lastPollTime (record_calls m (cs @ [c])) = Some (call_time c)
   \<and> lastPollDuration (record_calls m (cs @ [c])) = call_duration c"
proof -
  have split: "length (filter is_success cs) + length (filter (\<lambda>c. \<not> is_success c) cs) = length cs"
    for cs :: "record_call list"
    using sum_length_filter_compl [of is_success cs] by simp
  have total: "pollSuccessCount (record_calls m cs) + pollErrorCount (record_calls m cs)
       = pollSuccessCount m + pollErrorCount m + int (length cs)" for m cs
    using split [of cs] by (simp add: success_count error_count)
  have zero: "pollSuccessCount (NewMetricsService t0) + pollErrorCount (NewMetricsService t0) = 0"
    by (simp add: NewMetricsService_def)
  have mono1: "pollSuccessCount (record_calls m cs) \<le> pollSuccessCount (record_calls m (cs @ ds))"
    by (simp add: record_calls_append success_count [of "record_calls m cs"])
  have mono2: "pollErrorCount (record_calls m cs) \<le> pollErrorCount (record_calls m (cs @ ds))"
    by (simp add: record_calls_append error_count [of "record_calls m cs"])
  show ?thesis
    using total [of "NewMetricsService t0" cs] total [of m cs] zero mono1 mono2
    by (simp add: record_calls_snoc record_one_last RecordPollSuccess_def RecordPollError_def)
qed

section \<open>Properties of a poll cycle\<close>

text \<open>
  C6. In a cycle where \<^verbatim>\<open>ListActive\<close> succeeds with an empty list, \<^verbatim>\<open>PollPrices\<close>
  returns nil and the metrics are what they were: no counter and no last-poll field
  changes. Neither the exchange nor the snapshot repository is called.
\<close>

theorem empty_universe_no_outcome:
  assumes "ListActive p = Inr []"
  shows "PollPrices p clock m =
         \<lparr>returned = None, metrics = m, fetched = None, snapshots = [], created = None\<rparr>"
  using assms by (simp add: PollPrices_def)

theorem empty_universe_no_outcome_witness:
  "PollPrices \<lparr>ListActive = Inr [], GetPrices = (\<lambda>names. Inr []), CreateBatch = (\<lambda>batch. None)\<rparr>
      (\<lambda>i. 1000 * int i) (RecordPollSuccess 5 7 (NewMetricsService 0))
     = \<lparr>returned = None, metrics = RecordPollSuccess 5 7 (NewMetricsService 0), fetched = None,
        snapshots = [], created = None\<rparr>"
  using empty_universe_no_outcome [of
      "\<lparr>ListActive = Inr [], GetPrices = (\<lambda>names. Inr []), CreateBatch = (\<lambda>batch. None)\<rparr>"
      "\<lambda>i. 1000 * int i" "RecordPollSuccess 5 7 (NewMetricsService 0)"]
  by simp

text \<open>
  The lookup map holds, for each name of the active list, the last symbol with that
  name; the batch is one snapshot per quote whose symbol is a key of the map, in the order
  of the quotes.
\<close>

lemma symbolMap_fold:
  "foldl (\<lambda>symbolMap s. symbolMap(Name s \<mapsto> s)) mp symbols n =
     (case map_of (rev (map (\<lambda>s. (Name s, s)) symbols)) n of Some s \<Rightarrow> Some s | None \<Rightarrow> mp n)"
  by (induction symbols arbitrary: mp) (auto simp: map_add_def split: option.splits)

lemma symbolMap_of_eq:
  "symbolMap_of symbols = map_of (rev (map (\<lambda>s. (Name s, s)) symbols))"
  by (rule ext) (simp add: symbolMap_of_def symbolMap_fold split: option.splits)

lemma symbolMap_of_dom: "dom (symbolMap_of symbols) = Name ` set symbols"
  by (simp add: symbolMap_of_eq dom_map_of_conv_image_fst image_image)

lemma symbolMap_of_Some:
  "symbolMap_of symbols n = Some y \<Longrightarrow> y \<in> set symbols \<and> Name y = n"
  by (auto simp: symbolMap_of_eq dest!: map_of_SomeD)

lemma createSnapshots_fold:
  "foldl (\<lambda>snaps price.
         (case mp (Price_Symbol price) of
            Some symb \<Rightarrow>
              snaps @ [\<lparr>Snapshot_ID = 0, SymbolID = ID symb, Symbol = Price_Symbol price,
                         Price = Price_Price price, Timestamp = now\<rparr>]
          | None \<Rightarrow> snaps)) acc prices
   = acc @ map (snapshot_of mp now) (filter (\<lambda>q. Price_Symbol q \<in> dom mp) prices)"
  by (induction prices arbitrary: acc) (auto simp: snapshot_of_def split: option.splits)

lemma createSnapshots_eq:
  "createSnapshots mp prices now = map (snapshot_of mp now) (filter (\<lambda>q. Price_Symbol q \<in> dom mp) prices)"
  by (simp add: createSnapshots_def createSnapshots_fold)

lemma image_Collect_mem: "f ` {x \<in> A. f x \<in> B} = B \<inter> f ` A"
  by auto

text \<open>
  C7. In a cycle where \<^verbatim>\<open>ListActive\<close> succeeds with a list that is not empty and
  \<^verbatim>\<open>GetPrices\<close> succeeds, the batch built holds exactly the quotes whose symbol is a name
  of the active list, in order, each with its symbol and price (quotes for other symbols
  are dropped); the symbols of the batch are the names that are both in the active list and
  among the quotes; every snapshot carries the one clock reading \<open>clock 1\<close> and the ID of
  an active symbol of its name. If the batch is empty, \<^verbatim>\<open>PollPrices\<close> returns nil, does not
  call \<^verbatim>\<open>CreateBatch\<close>, and records a success (the success counter goes up by one, the
  error counter stays); otherwise the batch is what \<^verbatim>\<open>CreateBatch\<close> is given.
\<close>

theorem batch_from_common_identifiers:
  assumes listed: "ListActive p = Inr symbols" "symbols \<noteq> []"
    and quoted: "GetPrices p (map Name symbols) = Inr prices"
  shows "map (\<lambda>s. (Symbol s, Price s)) (snapshots (PollPrices p clock m)) =
           map (\<lambda>q. (Price_Symbol q, Price_Price q))
             (filter (\<lambda>q. Price_Symbol q \<in> Name ` set symbols) prices)
       \<and> Symbol ` set (snapshots (PollPrices p clock m)) =
           Name ` set symbols \<inter> Price_Symbol ` set prices
       \<and> (\<forall>s \<in> set (snapshots (PollPrices p clock m)).
             Timestamp s = clock 1 \<and> (\<exists>y \<in> set symbols. Name y = Symbol s \<and> ID y = SymbolID s))
       \<and> (snapshots (PollPrices p clock m) = [] \<longrightarrow>
             returned (PollPrices p clock m) = None
             \<and> created (PollPrices p clock m) = None
             \<and> metrics (PollPrices p clock m) = RecordPollSuccess (clock 3) (clock 2 - clock 0) m
             \<and> pollSuccessCount (metrics (PollPrices p clock m)) = pollSuccessCount m + 1
             \<and> pollErrorCount (metrics (PollPrices p clock m)) = pollErrorCount m)
       \<and> (snapshots (PollPrices p clock m) \<noteq> [] \<longrightarrow>
             created (PollPrices p clock m) = Some (snapshots (PollPrices p clock m)))"
proof -
  let ?mp = "symbolMap_of symbols"
  let ?snaps = "map (snapshot_of ?mp (clock 1)) (filter (\<lambda>q. Price_Symbol q \<in> Name ` set symbols) prices)"
  have built: "snapshots (PollPrices p clock m) = ?snaps"
    using listed quoted
    by (simp add: PollPrices_def Let_def createSnapshots_eq symbolMap_of_dom split: option.splits)
  have pairs: "map (\<lambda>s. (Symbol s, Price s)) ?snaps =
        map (\<lambda>q. (Price_Symbol q, Price_Price q))
          (filter (\<lambda>q. Price_Symbol q \<in> Name ` set symbols) prices)"
    by (simp add: snapshot_of_def comp_def)
  have names: "Symbol ` set ?snaps = Name ` set symbols \<inter> Price_Symbol ` set prices"
  proof -
    have "Symbol ` set ?snaps =
        Price_Symbol ` {q \<in> set prices. Price_Symbol q \<in> Name ` set symbols}"
      by (simp add: image_image snapshot_of_def)
    also have "\<dots> = Name ` set symbols \<inter> Price_Symbol ` set prices"
      by (rule image_Collect_mem)
    finally show ?thesis .
  qed
  have each: "\<forall>s \<in> set ?snaps.
        Timestamp s = clock 1 \<and> (\<exists>y \<in> set symbols. Name y = Symbol s \<and> ID y = SymbolID s)"
  proof
    fix s assume "s \<in> set ?snaps"
    then obtain q where q: "q \<in> set prices" "Price_Symbol q \<in> Name ` set symbols"
      "s = snapshot_of ?mp (clock 1) q"
      by auto
    from q(2) obtain y where y: "?mp (Price_Symbol q) = Some y"
      using symbolMap_of_dom [of symbols] by blast
    then have "y \<in> set symbols \<and> Name y = Price_Symbol q"
      by (rule symbolMap_of_Some)
    then show "Timestamp s = clock 1 \<and> (\<exists>y \<in> set symbols. Name y = Symbol s \<and> ID y = SymbolID s)"
      using q(3) y by (auto simp: snapshot_of_def)
  qed
  have empty: "snapshots (PollPrices p clock m) = [] \<longrightarrow>
        returned (PollPrices p clock m) = None
        \<and> created (PollPrices p clock m) = None
        \<and> metrics (PollPrices p clock m) = RecordPollSuccess (clock 3) (clock 2 - clock 0) m"
    using listed quoted by (simp add: PollPrices_def Let_def split: option.splits)
  have counts: "pollSuccessCount (RecordPollSuccess (clock 3) (clock 2 - clock 0) m) = pollSuccessCount m + 1
      \<and> pollErrorCount (RecordPollSuccess (clock 3) (clock 2 - clock 0) m) = pollErrorCount m"
    by (simp add: RecordPollSuccess_def)
  have stored: "snapshots (PollPrices p clock m) \<noteq> [] \<longrightarrow>
        created (PollPrices p clock m) = Some (snapshots (PollPrices p clock m))"
    using listed quoted by (simp add: PollPrices_def Let_def split: option.splits)
  show ?thesis
    unfolding built [symmetric]
    using pairs names each empty counts stored unfolding built [symmetric] by simp
qed

text \<open>
  Two active symbols; a quote for one of them and a quote for an unknown symbol, then a
  quote for the unknown symbol alone.
\<close>

theorem batch_from_common_identifiers_witness:
  "map (\<lambda>s. (Symbol s, Price s))
     (snapshots (PollPrices
        \<lparr>ListActive = Inr [\<lparr>ID = 1, Name = ''BTCUSDT'', Active = True, CreatedAt = 0, UpdatedAt = 0\<rparr>,
                           \<lparr>ID = 2, Name = ''ETHUSDT'', Active = True, CreatedAt = 0, UpdatedAt = 0\<rparr>],
         GetPrices = (\<lambda>names. Inr [\<lparr>Price_Symbol = ''XRPUSDT'', Price_Price = Decimal 5 (- 1)\<rparr>,
                                    \<lparr>Price_Symbol = ''BTCUSDT'', Price_Price = Decimal 50000 0\<rparr>]),
         CreateBatch = (\<lambda>batch. None)\<rparr>
        (\<lambda>i. 1000 * int i) (NewMetricsService 0)))
     = [(''BTCUSDT'', Decimal 50000 0)]
   \<and> snapshots (PollPrices
        \<lparr>ListActive = Inr [\<lparr>ID = 1, Name = ''BTCUSDT'', Active = True, CreatedAt = 0, UpdatedAt = 0\<rparr>,
                           \<lparr>ID = 2, Name = ''ETHUSDT'', Active = True, CreatedAt = 0, UpdatedAt = 0\<rparr>],
         GetPrices = (\<lambda>names. Inr [\<lparr>Price_Symbol = ''XRPUSDT'', Price_Price = Decimal 5 (- 1)\<rparr>]),
         CreateBatch = (\<lambda>batch. Some ErrInternal)\<rparr>
        (\<lambda>i. 1000 * int i) (NewMetricsService 0)) = []
   \<and> returned (PollPrices
        \<lparr>ListActive = Inr [\<lparr>ID = 1, Name = ''BTCUSDT'', Active = True, CreatedAt = 0, UpdatedAt = 0\<rparr>,
                           \<lparr>ID = 2, Name = ''ETHUSDT'', Active = True, CreatedAt = 0, UpdatedAt = 0\<rparr>],
         GetPrices = (\<lambda>names. Inr [\<lparr>Price_Symbol = ''XRPUSDT'', Price_Price = Decimal 5 (- 1)\<rparr>]),
         CreateBatch = (\<lambda>batch. Some ErrInternal)\<rparr>
        (\<lambda>i. 1000 * int i) (NewMetricsService 0)) = None
   \<and> pollSuccessCount (metrics (PollPrices
        \<lparr>ListActive = Inr [\<lparr>ID = 1, Name = ''BTCUSDT'', Active = True, CreatedAt = 0, UpdatedAt = 0\<rparr>,
                           \<lparr>ID = 2, Name = ''ETHUSDT'', Active = True, CreatedAt = 0, UpdatedAt = 0\<rparr>],
         GetPrices = (\<lambda>names. Inr [\<lparr>Price_Symbol = ''XRPUSDT'', Price_Price = Decimal 5 (- 1)\<rparr>]),
         CreateBatch = (\<lambda>batch. Some ErrInternal)\<rparr>
        (\<lambda>i. 1000 * int i) (NewMetricsService 0))) = 1
   \<and> created (PollPrices
        \<lparr>ListActive = Inr [\<lparr>ID = 1, Name = ''BTCUSDT'', Active = True, CreatedAt = 0, UpdatedAt = 0\<rparr>,
                           \<lparr>ID = 2, Name = ''ETHUSDT'', Active = True, CreatedAt = 0, UpdatedAt = 0\<rparr>],
         GetPrices = (\<lambda>names. Inr [\<lparr>Price_Symbol = ''XRPUSDT'', Price_Price = Decimal 5 (- 1)\<rparr>,
                                    \<lparr>Price_Symbol = ''BTCUSDT'', Price_Price = Decimal 50000 0\<rparr>]),
         CreateBatch = (\<lambda>batch. None)\<rparr>
        (\<lambda>i. 1000 * int i) (NewMetricsService 0))
     = Some (snapshots (PollPrices
        \<lparr>ListActive = Inr [\<lparr>ID = 1, Name = ''BTCUSDT'', Active = True, CreatedAt = 0, UpdatedAt = 0\<rparr>,
                           \<lparr>ID = 2, Name = ''ETHUSDT'', Active = True, CreatedAt = 0, UpdatedAt = 0\<rparr>],
         GetPrices = (\<lambda>names. Inr [\<lparr>Price_Symbol = ''XRPUSDT'', Price_Price = Decimal 5 (- 1)\<rparr>,
                                    \<lparr>Price_Symbol = ''BTCUSDT'', Price_Price = Decimal 50000 0\<rparr>]),
         CreateBatch = (\<lambda>batch. None)\<rparr>
        (\<lambda>i. 1000 * int i) (NewMetricsService 0)))"
proof -
  let ?symbols = "[\<lparr>ID = 1, Name = ''BTCUSDT'', Active = True, CreatedAt = 0, UpdatedAt = 0\<rparr>,
                   \<lparr>ID = 2, Name = ''ETHUSDT'', Active = True, CreatedAt = 0, UpdatedAt = 0\<rparr>]"
  let ?quotes1 = "[\<lparr>Price_Symbol = ''XRPUSDT'', Price_Price = Decimal 5 (- 1)\<rparr>,
                   \<lparr>Price_Symbol = ''BTCUSDT'', Price_Price = Decimal 50000 0\<rparr>]"
  let ?quotes2 = "[\<lparr>Price_Symbol = ''XRPUSDT'', Price_Price = Decimal 5 (- 1)\<rparr>]"
  let ?p1 = "\<lparr>ListActive = Inr ?symbols, GetPrices = (\<lambda>names. Inr ?quotes1),
              CreateBatch = (\<lambda>batch. None)\<rparr>"
  let ?p2 = "\<lparr>ListActive = Inr ?symbols, GetPrices = (\<lambda>names. Inr ?quotes2),
              CreateBatch = (\<lambda>batch. Some ErrInternal)\<rparr>"
  let ?clock = "\<lambda>i. 1000 * int i"
  let ?m = "NewMetricsService 0"
  have f1: "map (\<lambda>s. (Symbol s, Price s)) (snapshots (PollPrices ?p1 ?clock ?m)) =
              [(''BTCUSDT'', Decimal 50000 0)]"
    using batch_from_common_identifiers [of ?p1 ?symbols ?quotes1 ?clock ?m] by simp
  have "map (\<lambda>s. (Symbol s, Price s)) (snapshots (PollPrices ?p2 ?clock ?m)) = []"
    using batch_from_common_identifiers [of ?p2 ?symbols ?quotes2 ?clock ?m] by simp
  then have f2: "snapshots (PollPrices ?p2 ?clock ?m) = []"
    by simp
  have f3: "returned (PollPrices ?p2 ?clock ?m) = None
      \<and> pollSuccessCount (metrics (PollPrices ?p2 ?clock ?m)) = 1"
    using f2 batch_from_common_identifiers [of ?p2 ?symbols ?quotes2 ?clock ?m]
    by (simp add: NewMetricsService_def RecordPollSuccess_def)
  have "snapshots (PollPrices ?p1 ?clock ?m) \<noteq> []"
    using f1 by auto
  then have f4: "created (PollPrices ?p1 ?clock ?m) = Some (snapshots (PollPrices ?p1 ?clock ?m))"
    using batch_from_common_identifiers [of ?p1 ?symbols ?quotes1 ?clock ?m] by simp
  show ?thesis using f1 f2 f3 f4 by simp
qed

section \<open>Properties of ValidateSymbolName\<close>

text \<open>
  On a name of ASCII bytes the runes are the bytes, and the function accepts the name
  exactly when it has 2 to 20 bytes, each of them \<^verbatim>\<open>A\<close> to \<^verbatim>\<open>Z\<close> or \<^verbatim>\<open>0\<close> to \<^verbatim>\<open>9\<close>. Every
  result is nil or \<^verbatim>\<open>ErrInvalidSymbol\<close>.
\<close>

lemma runes_ascii:
  "\<forall>c \<in> set name. (of_char c :: nat) < 0x80 \<Longrightarrow> runes name = map of_char name"
  by (induction name) simp_all

lemma check_runes_None:
  "check_runes Upper Digit rs = None \<longleftrightarrow>
     (\<forall>r \<in> set rs. unicode_IsUpper Upper r \<or> unicode_IsDigit Digit r)"
  by (induction rs) auto

lemma ValidateSymbolName_ascii:
  assumes "\<forall>c \<in> set name. (of_char c :: nat) < 0x80"
  shows "ValidateSymbolName Upper Digit name = None \<longleftrightarrow>
           2 \<le> length name \<and> length name \<le> 20
           \<and> (\<forall>c \<in> set name. (0x41 \<le> (of_char c :: nat) \<and> (of_char c :: nat) \<le> 0x5A)
                              \<or> (0x30 \<le> (of_char c :: nat) \<and> (of_char c :: nat) \<le> 0x39))"
proof -
  have "unicode_IsUpper Upper (of_char c) \<or> unicode_IsDigit Digit (of_char c) \<longleftrightarrow>
          (0x41 \<le> (of_char c :: nat) \<and> (of_char c :: nat) \<le> 0x5A)
          \<or> (0x30 \<le> (of_char c :: nat) \<and> (of_char c :: nat) \<le> 0x39)"
    if "c \<in> set name" for c
    using assms that by (auto simp: unicode_IsUpper_def unicode_IsDigit_def)
  then show ?thesis
    using assms by (auto simp: ValidateSymbolName_def runes_ascii check_runes_None)
qed

lemma ValidateSymbolName_result:
  "ValidateSymbolName Upper Digit name = None \<or> ValidateSymbolName Upper Digit name = Some ErrInvalidSymbol"
proof -
  have "check_runes Upper Digit rs = None \<or> check_runes Upper Digit rs = Some ErrInvalidSymbol" for rs
    by (induction rs) auto
  then show ?thesis by (auto simp: ValidateSymbolName_def)
qed

text \<open>
  C8. The documented rule is that a name is accepted if and only if it is an uppercase
  alphanumeric string of 2 to 20 characters. The one-character name \<^verbatim>\<open>U+00C9\<close> (capital E with acute
  accent), two bytes \<^verbatim>\<open>C3 89\<close> in UTF-8, is accepted: its length in bytes is 2, and its
  single rune is an uppercase letter for \<^verbatim>\<open>unicode.IsUpper\<close>.
\<close>

theorem ValidateSymbolName_accepts_one_character:
  "ValidateSymbolName Upper Digit [CHR 0xC3, CHR 0x89] = None
   \<and> runes [CHR 0xC3, CHR 0x89] = [0xC9]
   \<and> length [CHR 0xC3, CHR 0x89] = 2"
  by code_simp

section \<open>Properties of GetPriceHistory\<close>

text \<open>
  C10. \<^verbatim>\<open>GetPriceHistory\<close> asks \<^verbatim>\<open>Exists\<close> for the normalised symbol. When the answer
  is false it returns \<^verbatim>\<open>ErrSymbolNotFound\<close> and \<^verbatim>\<open>GetHistory\<close> is not called. When the
  answer is true it calls \<^verbatim>\<open>GetHistory\<close> once, with the limit 100 in place of a limit
  \<open>\<le> 0\<close>, 1000 in place of a limit \<open>> 1000\<close>, and the limit itself otherwise. Any limit
  passed to \<^verbatim>\<open>GetHistory\<close> lies in 1 to 1000.
\<close>

theorem GetPriceHistory_limit_and_not_found:
  "(Exists svc (ToUpper (TrimSpace symbol)) = Inr False \<longrightarrow>
      GetPriceHistory svc ToUpper TrimSpace symbol limit =
        (Inl ErrSymbolNotFound, [Exists_call (ToUpper (TrimSpace symbol))]))
   \<and> (Exists svc (ToUpper (TrimSpace symbol)) = Inr True \<longrightarrow>
      GetPriceHistory svc ToUpper TrimSpace symbol limit =
        ((case GetHistory svc (ToUpper (TrimSpace symbol))
                 (if limit \<le> 0 then 100 else if limit > 1000 then 1000 else limit) of
            Inl err \<Rightarrow> Inl ErrInternal
          | Inr history \<Rightarrow> Inr history),
         [Exists_call (ToUpper (TrimSpace symbol)),
          GetHistory_call (ToUpper (TrimSpace symbol))
            (if limit \<le> 0 then 100 else if limit > 1000 then 1000 else limit)]))
   \<and> (\<forall>s l. GetHistory_call s l \<in> set (snd (GetPriceHistory svc ToUpper TrimSpace symbol limit))
        \<longrightarrow> 1 \<le> l \<and> l \<le> 1000)"
  by (auto simp: GetPriceHistory_def Let_def split: sum.splits)

theorem GetPriceHistory_limit_and_not_found_witness:
  "GetPriceHistory \<lparr>Exists = (\<lambda>name. Inr (name = ''BTCUSDT'')), GetHistory = (\<lambda>name limit. Inr [])\<rparr>
      (\<lambda>s. s) (\<lambda>s. s) ''DOGEUSDT'' 50
     = (Inl ErrSymbolNotFound, [Exists_call ''DOGEUSDT''])
   \<and> GetPriceHistory \<lparr>Exists = (\<lambda>name. Inr (name = ''BTCUSDT'')), GetHistory = (\<lambda>name limit. Inr [])\<rparr>
      (\<lambda>s. s) (\<lambda>s. s) ''BTCUSDT'' 5000
     = (Inr [], [Exists_call ''BTCUSDT'', GetHistory_call ''BTCUSDT'' 1000])
   \<and> GetPriceHistory \<lparr>Exists = (\<lambda>name. Inr (name = ''BTCUSDT'')), GetHistory = (\<lambda>name limit. Inr [])\<rparr>
      (\<lambda>s. s) (\<lambda>s. s) ''BTCUSDT'' (- 3)
     = (Inr [], [Exists_call ''BTCUSDT'', GetHistory_call ''BTCUSDT'' 100])"
  using GetPriceHistory_limit_and_not_found [of
      "\<lparr>Exists = (\<lambda>name. Inr (name = ''BTCUSDT'')), GetHistory = (\<lambda>name limit. Inr [])\<rparr>"
      "\<lambda>s. s" "\<lambda>s. s" "''DOGEUSDT''" 50]
    GetPriceHistory_limit_and_not_found [of
      "\<lparr>Exists = (\<lambda>name. Inr (name = ''BTCUSDT'')), GetHistory = (\<lambda>name limit. Inr [])\<rparr>"
      "\<lambda>s. s" "\<lambda>s. s" "''BTCUSDT''" 5000]
    GetPriceHistory_limit_and_not_found [of
      "\<lparr>Exists = (\<lambda>name. Inr (name = ''BTCUSDT'')), GetHistory = (\<lambda>name limit. Inr [])\<rparr>"
      "\<lambda>s. s" "\<lambda>s. s" "''BTCUSDT''" "- 3"]
  by simp

section \<open>Properties of Poller.Start\<close>




text \<open>
  A poller that was not running, and ticks only: the loop was entered and four cycles ran
  (the first at once, three on ticks), and \<^verbatim>\<open>Poller.Start\<close> has not returned. This is why
  \<^verbatim>\<open>Application.Start\<close> calls it in a \<^verbatim>\<open>go\<close> statement.
\<close>

lemma Poller_Start_waits_through_ticks:
  "Start counting_service context_Canceled [Ticker_C, Ticker_C, Ticker_C]
      \<lparr>interval = 60000000000, running = False, stopCh_closed = False, doneCh_closed = False\<rparr> 0
     = (Blocked,
        \<lparr>interval = 60000000000, running = True, stopCh_closed = False, doneCh_closed = False\<rparr>, 4)"
  by (simp add: Start_def poll_def counting_service_def)



end
